theory Spec2Isabelle
  imports Main
begin

section \<open>Python strings\<close>

text \<open>
  A Python \<open>str\<close> is modelled as a \<open>string\<close>. Three operations that the library calls
  are decided by the Unicode tables of the Python runtime, which are no part of the
  library: the lower-casing \<open>str.lower()\<close>, the reading of a string by \<open>int()\<close>, and the
  class \<open>\w\<close> of the regular expressions. Each is a parameter of the functions that use
  it, so that what is proved of these functions holds whatever the tables are.
\<close>

text \<open>\<open>s.replace(old, new)\<close>: every non-overlapping occurrence of \<open>old\<close>, scanning from
  the left. With an empty \<open>old\<close> Python inserts \<open>new\<close> before every character and at the end.\<close>

fun str_replace :: "string \<Rightarrow> string \<Rightarrow> string \<Rightarrow> string" where
  "str_replace [] new s = new @ concat (map (\<lambda>c. c # new) s)"
| "str_replace (a # old) new [] = []"
| "str_replace (a # old) new (c # cs) =
     (if take (Suc (length old)) (c # cs) = a # old
      then new @ str_replace (a # old) new (drop (length old) cs)
      else c # str_replace (a # old) new cs)"

text \<open>\<open>sub in s\<close> for two strings: \<open>sub\<close> occurs in \<open>s\<close> as a contiguous substring.\<close>

fun str_contains :: "string \<Rightarrow> string \<Rightarrow> bool" where
  "str_contains sub [] = (sub = [])"
| "str_contains sub (c # cs) = (take (length sub) (c # cs) = sub \<or> str_contains sub cs)"

text \<open>\<open>s.find(sub)\<close> for a one-character \<open>sub\<close>: the index of its first occurrence, or -1.\<close>

fun str_find_from :: "char \<Rightarrow> string \<Rightarrow> int \<Rightarrow> int" where
  "str_find_from x [] i = -1"
| "str_find_from x (c # cs) i = (if c = x then i else str_find_from x cs (i + 1))"

definition str_find :: "string \<Rightarrow> char \<Rightarrow> int" where
  "str_find s x = str_find_from x s 0"

text \<open>\<open>s[0:stop]\<close>: a negative \<open>stop\<close> counts from the end of the string.\<close>

definition str_slice_to :: "string \<Rightarrow> int \<Rightarrow> string" where
  "str_slice_to s stop =
     (if stop < 0 then take (nat (int (length s) + stop)) s else take (nat stop) s)"

section \<open>The ASCII letters\<close>

definition is_ascii :: "char \<Rightarrow> bool" where
  "is_ascii c = ((of_char c :: nat) < 128)"

definition is_ascii_upper :: "char \<Rightarrow> bool" where
  "is_ascii_upper c = (65 \<le> (of_char c :: nat) \<and> (of_char c :: nat) \<le> 90)"

text \<open>
  The lower-casing of the 26 ASCII capitals, every other character left as it is. This
  is not \<open>str.lower()\<close>: it states what \<open>str.lower()\<close> does to a string of ASCII characters,
  and it is the lower-casing given to the functions below in the examples, all of
  which are ASCII.
\<close>

definition ascii_lower_char :: "char \<Rightarrow> char" where
  "ascii_lower_char c = (if is_ascii_upper c then char_of (of_char c + 32 :: nat) else c)"

definition ascii_lower :: "string \<Rightarrow> string" where
  "ascii_lower s = map ascii_lower_char s"

text \<open>
  What is known of \<open>str.lower()\<close> beyond ASCII is stated as properties of the parameter.
  The first: on a string of ASCII characters it is the lower-casing of the ASCII
  capitals. The second: its result holds no ASCII capital, and holds a closing
  parenthesis, an apostrophe, an underscore or a colon only if its argument does (a
  lower-case mapping yields letters and combining marks).
\<close>

definition lower_on_ascii :: "(string \<Rightarrow> string) \<Rightarrow> bool" where
  "lower_on_ascii lower = (\<forall>s. list_all is_ascii s \<longrightarrow> lower s = ascii_lower s)"

definition lower_keeps_alphabet :: "(string \<Rightarrow> string) \<Rightarrow> bool" where
  "lower_keeps_alphabet lower =
     (\<forall>s. filter is_ascii_upper (lower s) = [] \<and>
          (\<forall>c\<in>{CHR '')'', CHR 0x27, CHR ''_'', CHR '':''}.
             c \<in> set (lower s) \<longrightarrow> c \<in> set s))"

section \<open>Static tables\<close>

definition get_file_types :: "string list" where
  "get_file_types = [''pdf'', ''odt'', ''odg'']"

definition RTL :: "string list" where
  "RTL = [''ar'', ''fa'', ''ckb'', ''ar-urdun'', ''ps'', ''ur'']"

definition get_language_direction :: "string \<Rightarrow> string" where
  "get_language_direction languagecode =
     (if languagecode \<in> set RTL then ''rtl'' else ''ltr'')"

section \<open>Title to system message\<close>

text \<open>The first parameter is \<open>str.lower()\<close> of the runtime.\<close>

definition title_to_message :: "(string \<Rightarrow> string) \<Rightarrow> string \<Rightarrow> string" where
  "title_to_message lower title =
     (let ret = str_replace ''-'' '''' title;
          ret = str_replace ''_('' ''-'' ret;
          ret = str_replace '')'' '''' ret;
          ret = str_replace [CHR 0x27] '''' ret;
          ret = str_replace ''_'' '''' ret;
          ret = str_replace '':'' '''' ret;
          ret = lower ret
      in ''sidebar-'' @ ret)"

text \<open>
  The transform in the words of the specification, as a chain of independent steps:
  remove hyphens, turn every two-character group \<open>a(\<close> into a hyphen, remove closing
  parentheses, apostrophes, underscores and colons, lower-case, prepend the prefix.
  The first character \<open>a\<close> of the group is a parameter: the specification's step list
  names a space, the program an underscore.
\<close>

fun group_to_hyphen :: "char \<Rightarrow> string \<Rightarrow> string" where
  "group_to_hyphen a (x # y # s) =
     (if x = a \<and> y = CHR ''('' then CHR ''-'' # group_to_hyphen a s
      else x # group_to_hyphen a (y # s))"
| "group_to_hyphen a s = s"

definition remove_char :: "char \<Rightarrow> string \<Rightarrow> string" where
  "remove_char x s = filter (\<lambda>c. c \<noteq> x) s"

text \<open>The steps before the lower-casing.\<close>

definition removal_steps :: "char \<Rightarrow> string \<Rightarrow> string" where
  "removal_steps a title =
     remove_char CHR '':''
       (remove_char CHR ''_''
         (remove_char (CHR 0x27)
           (remove_char CHR '')''
             (group_to_hyphen a (remove_char CHR ''-'' title)))))"

definition transform_steps :: "(string \<Rightarrow> string) \<Rightarrow> char \<Rightarrow> string \<Rightarrow> string" where
  "transform_steps lower a title = ''sidebar-'' @ lower (removal_steps a title)"

section \<open>Python values and exceptions\<close>

text \<open>
  The exceptions that the operations of the library can raise on a parsed response.
  Errors of the transport (no connection, a body that is not JSON) are outside the model:
  a response is the parsed document.
\<close>

datatype py_error =
  KeyError | TypeError | IndexError | ValueError | AttributeError
  | UnboundLocalError | StopIteration

text \<open>
  The values that \<open>response.json()\<close> produces: \<open>None\<close>, booleans, integers, strings, lists,
  and dictionaries with string keys, kept in insertion order (the keys of a parsed
  dictionary are distinct). The counts and page ids of the wiki are integers; floating
  point numbers are not modelled. \<open>JNull\<close> is also the \<open>None\<close> that a function returns.
\<close>

datatype json =
  JNull | JBool bool | JInt int | JStr string | JArr "json list"
  | JObj "(string \<times> json) list"

fun py_bind :: "py_error + 'a \<Rightarrow> ('a \<Rightarrow> py_error + 'b) \<Rightarrow> py_error + 'b" where
  "py_bind (Inl e) f = Inl e"
| "py_bind (Inr x) f = f x"

text \<open>\<open>key in v\<close> for a string \<open>key\<close>: a key of a dictionary, an element of a list, a
  substring of a string; any other value is not iterable.\<close>

fun py_in :: "string \<Rightarrow> json \<Rightarrow> py_error + bool" where
  "py_in key (JObj kvs) = Inr (map_of kvs key \<noteq> None)"
| "py_in key (JArr xs) = Inr (JStr key \<in> set xs)"
| "py_in key (JStr s) = Inr (str_contains key s)"
| "py_in key v = Inl TypeError"

text \<open>A number as Python sees it: \<open>bool\<close> is a subclass of \<open>int\<close>.\<close>

fun py_num :: "json \<Rightarrow> int option" where
  "py_num (JInt i) = Some i"
| "py_num (JBool b) = Some (if b then 1 else 0)"
| "py_num v = None"

text \<open>\<open>xs[i]\<close> on a sequence: a negative index counts from the end.\<close>

definition seq_index :: "'a list \<Rightarrow> int \<Rightarrow> py_error + 'a" where
  "seq_index xs i =
     (if 0 \<le> i \<and> i < int (length xs) then Inr (xs ! nat i)
      else if i < 0 \<and> - int (length xs) \<le> i then Inr (xs ! nat (int (length xs) + i))
      else Inl IndexError)"

text \<open>\<open>v[k]\<close>: a dictionary is looked up by key (a list or a dictionary is no key at all),
  a list or a string is indexed by a number.\<close>

fun py_getitem :: "json \<Rightarrow> json \<Rightarrow> py_error + json" where
  "py_getitem (JObj kvs) (JStr k) =
     (case map_of kvs k of None \<Rightarrow> Inl KeyError | Some v \<Rightarrow> Inr v)"
| "py_getitem (JObj kvs) (JArr xs) = Inl TypeError"
| "py_getitem (JObj kvs) (JObj ys) = Inl TypeError"
| "py_getitem (JObj kvs) k = Inl KeyError"
| "py_getitem (JArr xs) k =
     (case py_num k of None \<Rightarrow> Inl TypeError | Some i \<Rightarrow> seq_index xs i)"
| "py_getitem (JStr s) k =
     (case py_num k of None \<Rightarrow> Inl TypeError
      | Some i \<Rightarrow> py_bind (seq_index s i) (\<lambda>c. Inr (JStr [c])))"
| "py_getitem v k = Inl TypeError"

text \<open>\<open>list(v)\<close>, \<open>iter(v)\<close> and \<open>for x in v\<close>: the keys of a dictionary, the elements of a
  list, the characters of a string.\<close>

fun py_list :: "json \<Rightarrow> py_error + json list" where
  "py_list (JObj kvs) = Inr (map (\<lambda>kv. JStr (fst kv)) kvs)"
| "py_list (JArr xs) = Inr xs"
| "py_list (JStr s) = Inr (map (\<lambda>c. JStr [c]) s)"
| "py_list v = Inl TypeError"

text \<open>\<open>len(v)\<close>\<close>

fun py_len :: "json \<Rightarrow> py_error + nat" where
  "py_len (JObj kvs) = Inr (length kvs)"
| "py_len (JArr xs) = Inr (length xs)"
| "py_len (JStr s) = Inr (length s)"
| "py_len v = Inl TypeError"

text \<open>\<open>next(iter(v))\<close>\<close>

definition py_next_iter :: "json \<Rightarrow> py_error + json" where
  "py_next_iter v =
     py_bind (py_list v) (\<lambda>xs. case xs of [] \<Rightarrow> Inl StopIteration | x # _ \<Rightarrow> Inr x)"

text \<open>Arithmetic and comparison as the statistics use them: \<open>a > n\<close> and \<open>a - b\<close> accept
  numbers only. \<open>a + b\<close> and \<open>a < b\<close> are applied to operands that have been through
  \<open>>\<close> or \<open>-\<close> before, and are modelled on numbers.\<close>

definition py_gt :: "json \<Rightarrow> int \<Rightarrow> py_error + bool" where
  "py_gt a n = (case py_num a of None \<Rightarrow> Inl TypeError | Some i \<Rightarrow> Inr (i > n))"

definition py_sub :: "json \<Rightarrow> json \<Rightarrow> py_error + json" where
  "py_sub a b =
     (case (py_num a, py_num b) of
        (Some i, Some j) \<Rightarrow> Inr (JInt (i - j))
      | _ \<Rightarrow> Inl TypeError)"

definition py_add :: "json \<Rightarrow> json \<Rightarrow> py_error + json" where
  "py_add a b =
     (case (py_num a, py_num b) of
        (Some i, Some j) \<Rightarrow> Inr (JInt (i + j))
      | _ \<Rightarrow> Inl TypeError)"

definition py_lt :: "json \<Rightarrow> json \<Rightarrow> py_error + bool" where
  "py_lt a b =
     (case (py_num a, py_num b) of
        (Some i, Some j) \<Rightarrow> Inr (i < j)
      | _ \<Rightarrow> Inl TypeError)"

text \<open>
  \<open>int(v)\<close>. How \<open>int()\<close> reads a string (the white space it skips, the signs, the
  digits of every script, the separators, the limit on the number of digits) is the
  runtime's and a parameter: \<open>int_str s\<close> is the integer read from \<open>s\<close>, and \<open>None\<close>
  where \<open>int()\<close> raises \<open>ValueError\<close>.
\<close>

fun py_int :: "(string \<Rightarrow> int option) \<Rightarrow> json \<Rightarrow> py_error + int" where
  "py_int int_str (JStr s) =
     (case int_str s of None \<Rightarrow> Inl ValueError | Some i \<Rightarrow> Inr i)"
| "py_int int_str (JInt i) = Inr i"
| "py_int int_str (JBool b) = Inr (if b then 1 else 0)"
| "py_int int_str v = Inl TypeError"

text \<open>For the examples: an \<open>int()\<close> of which one value is given, \<open>int(s) = n\<close>, the
  only one that the example asks for.\<close>

definition reads_as :: "string \<Rightarrow> int \<Rightarrow> string \<Rightarrow> int option" where
  "reads_as s n x = (if x = s then Some n else None)"

section \<open>The remote API and the log\<close>

text \<open>
  A request is the mapping of query parameters sent to the fixed endpoint. The wiki is a
  function from a request to the parsed response; where the library repeats a request,
  the wiki is indexed by the number of the request, since a repeated identical request
  may be answered differently.
\<close>

type_synonym params = "(string \<times> string) list"

text \<open>The records written to the logger, with the values interpolated into the message
  kept as they are rather than formatted as text.\<close>

datatype log_msg =
  RetrievingTranslationInfo string nat
  | StillNoResult string
  | IgnoringTranslation string json json json json
  | IncompleteTranslation json json json string string
  | CouldNotExpandTemplate string
  | CC0NotCorrectlyTranslated
  | CC0NotTranslated

datatype log_record = Info log_msg | Warning log_msg

fun is_warning :: "log_record \<Rightarrow> bool" where
  "is_warning (Warning m) = True"
| "is_warning (Info m) = False"

text \<open>What a call leaves behind: the number of requests it sent, the records it logged,
  and the value it returned or the exception it raised.\<close>

record 'a outcome =
  requests :: nat
  logged :: "log_record list"
  result :: "py_error + 'a"

section \<open>Translation statistics fetch\<close>

definition msggroupstats_params :: "string \<Rightarrow> params" where
  "msggroupstats_params page =
     [(''action'', ''query''), (''meta'', ''messagegroupstats''), (''format'', ''json''),
      (''mgsgroup'', ''page-'' @ page)]"

text \<open>
  The \<open>while counter < 4\<close> loop of \<open>get_msggroupstats\<close>. The state is the counter, the
  variable \<open>json\<close> (\<open>None\<close> while it is unbound), the number of requests sent and the log.
  The loop ends with the counter and \<open>json\<close>, or with the exception of the test
  \<open>'continue' in json\<close>.
\<close>

function msggroupstats_loop ::
  "(nat \<Rightarrow> params \<Rightarrow> json) \<Rightarrow> string \<Rightarrow> nat \<Rightarrow> json option \<Rightarrow> nat \<Rightarrow> log_record list
     \<Rightarrow> (nat \<times> json option) outcome" where
  "msggroupstats_loop api page counter js n lg =
     (if counter < 4 then
        (let response = api (Suc n) (msggroupstats_params page);
             lg' = lg @ [Info (RetrievingTranslationInfo page counter)]
         in case py_in ''continue'' response of
              Inl e \<Rightarrow> \<lparr>requests = Suc n, logged = lg', result = Inl e\<rparr>
            | Inr False \<Rightarrow>
                \<lparr>requests = Suc n, logged = lg', result = Inr (counter, Some response)\<rparr>
            | Inr True \<Rightarrow>
                msggroupstats_loop api page (counter + 1) (Some response) (Suc n) lg')
      else \<lparr>requests = n, logged = lg, result = Inr (counter, js)\<rparr>)"
  by pat_completeness auto
termination
  by (relation "measure (\<lambda>(api, page, counter, js, n, lg). 4 - counter)") auto

declare msggroupstats_loop.simps [simp del]

definition get_msggroupstats :: "string \<Rightarrow> (nat \<Rightarrow> params \<Rightarrow> json) \<Rightarrow> json outcome" where
  "get_msggroupstats page api =
     (let loop = msggroupstats_loop api page 1 None 0 []
      in case result loop of
           Inl e \<Rightarrow> \<lparr>requests = requests loop, logged = logged loop, result = Inl e\<rparr>
         | Inr (counter, None) \<Rightarrow>
             \<lparr>requests = requests loop, logged = logged loop, result = Inl UnboundLocalError\<rparr>
         | Inr (counter, Some json) \<Rightarrow>
             (case py_in ''continue'' json of
                Inl e \<Rightarrow> \<lparr>requests = requests loop, logged = logged loop, result = Inl e\<rparr>
              | Inr again \<Rightarrow>
                  (let lg = (if again \<or> counter = 4
                             then logged loop @ [Warning (StillNoResult page)]
                             else logged loop)
                   in \<lparr>requests = requests loop, logged = lg,
                       result =
                         py_bind (py_in ''query'' json) (\<lambda>has_query.
                           if \<not> has_query then Inr (JStr '''')
                           else py_bind (py_getitem json (JStr ''query'')) (\<lambda>query.
                             py_bind (py_in ''messagegroupstats'' query) (\<lambda>has_stats.
                               if \<not> has_stats then Inr (JStr '''') else Inr json)))\<rparr>)))"

section \<open>Translation completeness policy\<close>

text \<open>
  One pass of the body of the \<open>for line in ...\<close> loop of \<open>list_page_translations\<close>: the
  records it logs and the language codes it appends, or the exception it raises. The
  texts of both messages read \<open>line['language']\<close>; the warning concatenates it to
  strings, which raises a \<open>TypeError\<close> unless it is a string.
\<close>

definition translation_line :: "string \<Rightarrow> json \<Rightarrow> py_error + (log_record list \<times> json list)" where
  "translation_line page line =
     py_bind (py_getitem line (JStr ''translated'')) (\<lambda>translated.
     py_bind (py_gt translated 0) (\<lambda>started.
       if \<not> started then Inr ([], [])
       else
         py_bind (py_getitem line (JStr ''total'')) (\<lambda>total.
         py_bind (py_getitem line (JStr ''fuzzy'')) (\<lambda>fuzzy.
         py_bind (py_sub total fuzzy) (\<lambda>d.
         py_bind (py_sub d translated) (\<lambda>untouched.
         py_bind (py_gt untouched 4) (\<lambda>unfinished.
         py_bind (py_getitem line (JStr ''language'')) (\<lambda>language.
           if unfinished
           then Inr ([Info (IgnoringTranslation page language translated fuzzy total)], [])
           else
             py_bind (py_add translated fuzzy) (\<lambda>both.
             py_bind (py_lt both total) (\<lambda>incomplete.
               if incomplete
               then (case language of
                       JStr l \<Rightarrow>
                         Inr ([Warning (IncompleteTranslation translated fuzzy total page l)],
                              [language])
                     | _ \<Rightarrow> Inl TypeError)
               else Inr ([], [language])))))))))))"

fun translations_loop ::
  "string \<Rightarrow> json list \<Rightarrow> json list \<Rightarrow> log_record list
     \<Rightarrow> log_record list \<times> (py_error + json list)" where
  "translations_loop page [] available_translations lg = (lg, Inr available_translations)"
| "translations_loop page (line # rest) available_translations lg =
     (case translation_line page line of
        Inl e \<Rightarrow> (lg, Inl e)
      | Inr (lg1, langs) \<Rightarrow>
          translations_loop page rest (available_translations @ langs) (lg @ lg1))"

definition list_page_translations ::
  "string \<Rightarrow> (nat \<Rightarrow> params \<Rightarrow> json) \<Rightarrow> (json list) outcome" where
  "list_page_translations page api =
     (let stats = get_msggroupstats page api
      in case result stats of
           Inl e \<Rightarrow> \<lparr>requests = requests stats, logged = logged stats, result = Inl e\<rparr>
         | Inr json \<Rightarrow>
             if json = JStr '''' then
               \<lparr>requests = requests stats, logged = logged stats, result = Inr []\<rparr>
             else
               (case py_bind (py_getitem json (JStr ''query'')) (\<lambda>query.
                     py_bind (py_getitem query (JStr ''messagegroupstats'')) py_list) of
                  Inl e \<Rightarrow>
                    \<lparr>requests = requests stats, logged = logged stats, result = Inl e\<rparr>
                | Inr lines \<Rightarrow>
                    (let (lg, r) = translations_loop page lines [] (logged stats)
                     in \<lparr>requests = requests stats, logged = lg, result = r\<rparr>)))"

section \<open>Shapes of responses\<close>

text \<open>The values on which the test \<open>key in v\<close> does not raise.\<close>

fun supports_in :: "json \<Rightarrow> bool" where
  "supports_in (JObj kvs) = True"
| "supports_in (JArr xs) = True"
| "supports_in (JStr s) = True"
| "supports_in v = False"

text \<open>A reply of the wiki to a query: a JSON object whose member \<open>query\<close>, when there is
  one, is an object, a list or a string.\<close>

fun api_reply :: "json \<Rightarrow> bool" where
  "api_reply (JObj kvs) =
     (case map_of kvs ''query'' of None \<Rightarrow> True | Some q \<Rightarrow> supports_in q)"
| "api_reply v = False"

text \<open>The reply signals that more data is available.\<close>

definition has_continue :: "json \<Rightarrow> bool" where
  "has_continue r = (py_in ''continue'' r = Inr True)"

text \<open>The reply holds the statistics: the key \<open>query\<close>, and under it the key
  \<open>messagegroupstats\<close>.\<close>

definition has_stats :: "json \<Rightarrow> bool" where
  "has_stats r =
     (py_in ''query'' r = Inr True \<and>
      py_bind (py_getitem r (JStr ''query'')) (py_in ''messagegroupstats'') = Inr True)"

section \<open>Translation statistics as the specification describes them\<close>

text \<open>The per-language record of the statistics feed.\<close>

record translation_stats =
  language :: string
  total :: int
  translated :: int
  fuzzy :: int

text \<open>Reading an entry of the feed: a JSON object that has a string under \<open>language\<close>
  and integers under \<open>total\<close>, \<open>translated\<close> and \<open>fuzzy\<close>, whatever else it holds.\<close>

fun read_stats :: "json \<Rightarrow> translation_stats option" where
  "read_stats (JObj kvs) =
     (case (map_of kvs ''language'', map_of kvs ''total'', map_of kvs ''translated'',
            map_of kvs ''fuzzy'') of
        (Some (JStr l), Some (JInt t), Some (JInt tr), Some (JInt f)) \<Rightarrow>
          Some \<lparr>language = l, total = t, translated = tr, fuzzy = f\<rparr>
      | _ \<Rightarrow> None)"
| "read_stats v = None"

text \<open>
  The three-way classification in the words of the specification: a language with
  nothing translated is skipped; one with more than four units neither translated nor
  fuzzy is ignored; any other is included, and flagged incomplete when translated and
  fuzzy units together fall short of the total.
\<close>

datatype verdict = Skipped | Ignored | Incomplete | Complete

definition classify :: "translation_stats \<Rightarrow> verdict" where
  "classify s =
     (if translated s = 0 then Skipped
      else if total s - fuzzy s - translated s > 4 then Ignored
      else if translated s + fuzzy s < total s then Incomplete
      else Complete)"

definition included :: "translation_stats \<Rightarrow> bool" where
  "included s = (classify s = Incomplete \<or> classify s = Complete)"

text \<open>The warning logged for an incomplete translation of a page.\<close>

definition incomplete_warning :: "string \<Rightarrow> translation_stats \<Rightarrow> log_record" where
  "incomplete_warning page s =
     Warning (IncompleteTranslation (JInt (translated s)) (JInt (fuzzy s)) (JInt (total s))
       page (language s))"

text \<open>A statistics entry as the wiki sends it, for examples.\<close>

definition stats_entry :: "string \<Rightarrow> int \<Rightarrow> int \<Rightarrow> int \<Rightarrow> json" where
  "stats_entry l t tr f =
     JObj [(''code'', JStr l), (''language'', JStr l), (''total'', JInt t),
           (''translated'', JInt tr), (''fuzzy'', JInt f), (''proofread'', JInt 0)]"

definition stats_reply :: "json list \<Rightarrow> json" where
  "stats_reply entries =
     JObj [(''batchcomplete'', JStr ''''),
           (''query'', JObj [(''messagegroupstats'', JArr entries)])]"

text \<open>The records that the policy logs for an entry: an information for an ignored
  language, a warning for an incomplete one.\<close>

definition policy_log :: "string \<Rightarrow> translation_stats \<Rightarrow> log_record list" where
  "policy_log page s =
     (case classify s of
        Skipped \<Rightarrow> []
      | Ignored \<Rightarrow>
          [Info (IgnoringTranslation page (JStr (language s)) (JInt (translated s))
             (JInt (fuzzy s)) (JInt (total s)))]
      | Incomplete \<Rightarrow> [incomplete_warning page s]
      | Complete \<Rightarrow> [])"

section \<open>Sample replies\<close>

text \<open>A wiki that answers every statistics request with the same complete feed of four
  languages.\<close>

definition sample_stats_api :: "nat \<Rightarrow> params \<Rightarrow> json" where
  "sample_stats_api k p =
     stats_reply [stats_entry ''en'' 10 10 0, stats_entry ''de'' 10 6 0,
                  stats_entry ''fr'' 10 5 0, stats_entry ''ar'' 10 0 0]"

text \<open>A wiki whose every reply signals that more data is available.\<close>

definition sample_partial_reply :: json where
  "sample_partial_reply =
     JObj [(''continue'', JObj [(''mgscontinue'', JStr ''x'')]),
           (''query'', JObj [(''messagegroupstats'', JArr [stats_entry ''en'' 10 10 0])])]"

definition sample_busy_api :: "nat \<Rightarrow> params \<Rightarrow> json" where
  "sample_busy_api k p = sample_partial_reply"

text \<open>A wiki that answers with an error document, without the key \<open>query\<close>.\<close>

definition sample_error_api :: "nat \<Rightarrow> params \<Rightarrow> json" where
  "sample_error_api k p = JObj [(''error'', JObj [(''code'', JStr ''missingparam'')])]"

section \<open>File URL lookup\<close>

text \<open>
  The lookups below take the wiki as a function from a request to the parsed response
  (each sends one request). The records that \<open>get_file_url\<close> and
  \<open>list_page_templates\<close> write to the logger are built from strings only and decide
  nothing; they are left out of these two functions.
\<close>

definition file_url_params :: "string \<Rightarrow> params" where
  "file_url_params filename =
     [(''action'', ''query''), (''format'', ''json''), (''prop'', ''imageinfo''),
      (''titles'', ''File:'' @ filename), (''iiprop'', ''url'')]"

text \<open>The first parameter of \<open>get_file_url\<close> is \<open>int()\<close> on strings.\<close>

definition get_file_url ::
  "(string \<Rightarrow> int option) \<Rightarrow> string \<Rightarrow> (params \<Rightarrow> json) \<Rightarrow> py_error + json" where
  "get_file_url int_str filename api =
     (let url_json = api (file_url_params filename)
      in py_bind (py_getitem url_json (JStr ''query'')) (\<lambda>query.
         py_bind (py_getitem query (JStr ''pages'')) (\<lambda>pages.
         py_bind (py_list pages) (\<lambda>page_list.
           if length page_list = 1 then
             (let page_number = hd page_list
              in py_bind (py_int int_str page_number) (\<lambda>n.
                   if n = -1 then Inr JNull
                   else
                     py_bind (py_getitem pages page_number) (\<lambda>page.
                     py_bind (py_getitem page (JStr ''imageinfo'')) (\<lambda>imageinfo.
                     py_bind (py_getitem imageinfo (JInt 0)) (\<lambda>info.
                     py_getitem info (JStr ''url''))))))
           else Inr JNull))))"

section \<open>PDF name lookup\<close>

text \<open>\<open>re.search('{{PdfDownload[^}]*}', s)\<close>: the leftmost occurrence of \<open>{{PdfDownload\<close>
  that is followed by a closing brace, up to and including the first such brace.\<close>

fun search_pdfdownload :: "string \<Rightarrow> string option" where
  "search_pdfdownload [] = None"
| "search_pdfdownload (c # cs) =
     (let rest = drop 13 (c # cs)
      in if take 13 (c # cs) = ''{{PdfDownload'' \<and> dropWhile (\<lambda>x. x \<noteq> CHR ''}'') rest \<noteq> []
         then Some (''{{PdfDownload'' @ takeWhile (\<lambda>x. x \<noteq> CHR ''}'') rest @ ''}'')
         else search_pdfdownload cs)"

text \<open>\<open>re.search(r'\w+\.pdf', s)\<close>: the leftmost position from which a non-empty run of
  word characters is followed by \<open>.pdf\<close>. The run cannot stop early, since the
  character after it has to be the dot. Which characters \<open>\w\<close> matches is the runtime's:
  the parameter \<open>word\<close>.\<close>

fun search_pdffile :: "(char \<Rightarrow> bool) \<Rightarrow> string \<Rightarrow> string option" where
  "search_pdffile word [] = None"
| "search_pdffile word (c # cs) =
     (let run = takeWhile word (c # cs)
      in if run \<noteq> [] \<and> take 4 (dropWhile word (c # cs)) = ''.pdf''
         then Some (run @ ''.pdf'')
         else search_pdffile word cs)"

text \<open>For the examples: the ASCII members of \<open>\w\<close>, which are the letters, the digits
  and the underscore.\<close>

definition ascii_word_char :: "char \<Rightarrow> bool" where
  "ascii_word_char c =
     ((48 \<le> (of_char c :: nat) \<and> (of_char c :: nat) \<le> 57) \<or>
      (65 \<le> (of_char c :: nat) \<and> (of_char c :: nat) \<le> 90) \<or> c = CHR ''_'' \<or>
      (97 \<le> (of_char c :: nat) \<and> (of_char c :: nat) \<le> 122))"

text \<open>\<open>re.search(r'\.pdf$', s)\<close>: \<open>$\<close> matches at the end of the string and before a
  newline that ends the string.\<close>

definition ends_with_pdf :: "string \<Rightarrow> bool" where
  "ends_with_pdf s =
     (drop (length s - 4) s = ''.pdf'' \<or> drop (length s - 5) s = ''.pdf'' @ [CHR 0x0A])"

definition pdf_name_params_en :: "string \<Rightarrow> params" where
  "pdf_name_params_en worksheet =
     [(''action'', ''query''), (''prop'', ''revisions''), (''rvlimit'', ''1''),
      (''rvprop'', ''content''), (''format'', ''json''), (''titles'', worksheet)]"

definition pdf_name_params :: "string \<Rightarrow> string \<Rightarrow> params" where
  "pdf_name_params worksheet languagecode =
     [(''action'', ''query''), (''format'', ''json''), (''list'', ''messagecollection''),
      (''mcgroup'', ''page-'' @ worksheet), (''mclanguage'', languagecode)]"

text \<open>The loop over the translation units. The variable \<open>pdf\<close> is unbound (\<open>None\<close>) until
  a unit whose definition ends in \<open>.pdf\<close> is met.\<close>

fun pdf_loop :: "json list \<Rightarrow> json option \<Rightarrow> py_error + json option" where
  "pdf_loop [] pdf = Inr pdf"
| "pdf_loop (t # ts) pdf =
     (case py_getitem t (JStr ''definition'') of
        Inl e \<Rightarrow> Inl e
      | Inr (JStr definition) \<Rightarrow>
          if ends_with_pdf definition then
            (case py_getitem t (JStr ''translation'') of
               Inl e \<Rightarrow> Inl e
             | Inr translation \<Rightarrow> pdf_loop ts (Some translation))
          else pdf_loop ts pdf
      | Inr v \<Rightarrow> Inl TypeError)"

text \<open>The first parameter of \<open>get_pdf_name\<close> is the class \<open>\w\<close>.\<close>

definition get_pdf_name ::
  "(char \<Rightarrow> bool) \<Rightarrow> string \<Rightarrow> string \<Rightarrow> (params \<Rightarrow> json) \<Rightarrow> py_error + json" where
  "get_pdf_name word worksheet languagecode api =
     (if languagecode = ''en'' then
        (let response = api (pdf_name_params_en worksheet)
         in py_bind (py_in ''query'' response) (\<lambda>has_query.
            if \<not> has_query then Inr JNull else
            py_bind (py_getitem response (JStr ''query'')) (\<lambda>query.
            py_bind (py_in ''pages'' query) (\<lambda>has_pages.
            if \<not> has_pages then Inr JNull else
            py_bind (py_getitem query (JStr ''pages'')) (\<lambda>pages.
            py_bind (py_next_iter pages) (\<lambda>pageid.
            py_bind (py_getitem pages pageid) (\<lambda>page.
            py_bind (py_in ''revisions'' page) (\<lambda>has_revisions.
            if \<not> has_revisions then Inr JNull else
            py_bind (py_getitem page (JStr ''revisions'')) (\<lambda>revisions.
            py_bind (py_len revisions) (\<lambda>n.
            if \<not> n > 0 then Inr JNull else
            py_bind (py_getitem revisions (JInt 0)) (\<lambda>revision.
            py_bind (py_in ''*'' revision) (\<lambda>has_content.
            if \<not> has_content then Inr JNull else
            py_bind (py_getitem revision (JStr ''*'')) (\<lambda>content.
              case content of
                JStr text \<Rightarrow>
                  (case search_pdfdownload text of
                     None \<Rightarrow> Inr JNull
                   | Some pdfdownload \<Rightarrow>
                       (case search_pdffile word pdfdownload of
                          Some pdffile \<Rightarrow> Inr (JStr pdffile)
                        | None \<Rightarrow> Inr JNull))
              | _ \<Rightarrow> Inl TypeError)))))))))))))
      else
        (let response = api (pdf_name_params worksheet languagecode)
         in py_bind (py_getitem response (JStr ''query'')) (\<lambda>query.
            py_bind (py_getitem query (JStr ''messagecollection'')) (\<lambda>translations.
            py_bind (py_list translations) (\<lambda>units.
            py_bind (pdf_loop units None) (\<lambda>pdf.
              case pdf of None \<Rightarrow> Inl UnboundLocalError | Some name \<Rightarrow> Inr name))))))"

section \<open>Templates of a page\<close>

definition page_templates_params :: "string \<Rightarrow> params" where
  "page_templates_params page =
     [(''action'', ''query''), (''format'', ''json''), (''titles'', page),
      (''prop'', ''templates'')]"

text \<open>The loop over the templates: \<open>line['title'].find('/')\<close> needs a string, any other
  value has no method \<open>find\<close>.\<close>

fun templates_loop :: "json list \<Rightarrow> json list \<Rightarrow> py_error + json list" where
  "templates_loop [] acc = Inr acc"
| "templates_loop (line # rest) acc =
     (case py_in ''title'' line of
        Inl e \<Rightarrow> Inl e
      | Inr False \<Rightarrow> templates_loop rest acc
      | Inr True \<Rightarrow>
          (case py_getitem line (JStr ''title'') of
             Inl e \<Rightarrow> Inl e
           | Inr (JStr title) \<Rightarrow>
               (let language_code = str_find title CHR ''/''
                in if language_code = -1 then templates_loop rest (acc @ [JStr title])
                   else templates_loop rest (acc @ [JStr (str_slice_to title language_code)]))
           | Inr v \<Rightarrow> Inl AttributeError))"

definition list_page_templates :: "string \<Rightarrow> (params \<Rightarrow> json) \<Rightarrow> py_error + json list" where
  "list_page_templates page api =
     (let json = api (page_templates_params page)
      in py_bind (py_in ''query'' json) (\<lambda>has_query.
         if \<not> has_query then Inr [] else
         py_bind (py_getitem json (JStr ''query'')) (\<lambda>query.
         py_bind (py_in ''pages'' query) (\<lambda>has_pages.
         if \<not> has_pages then Inr [] else
         py_bind (py_getitem query (JStr ''pages'')) (\<lambda>pages.
         py_bind (py_list pages) (\<lambda>page_list.
           if length page_list = 1 then
             (let pageid = hd page_list
              in py_bind (py_getitem pages pageid) (\<lambda>page_entry.
                 py_bind (py_in ''templates'' page_entry) (\<lambda>has_templates.
                 if \<not> has_templates then Inr [] else
                 py_bind (py_getitem page_entry (JStr ''templates'')) (\<lambda>templates.
                 py_bind (py_list templates) (\<lambda>lines. templates_loop lines [])))))
           else Inr []))))))"

text \<open>What a template entry is expected to be: an object whose \<open>title\<close>, when it has
  one, is a string. \<open>line_title\<close> reads it.\<close>

fun line_title :: "json \<Rightarrow> string option" where
  "line_title (JObj kvs) =
     (case map_of kvs ''title'' of Some (JStr t) \<Rightarrow> Some t | _ \<Rightarrow> None)"
| "line_title v = None"

fun template_line :: "json \<Rightarrow> bool" where
  "template_line (JObj kvs) =
     (case map_of kvs ''title'' of None \<Rightarrow> True | Some (JStr t) \<Rightarrow> True | Some v \<Rightarrow> False)"
| "template_line v = False"

section \<open>Template expansion and the CC0 notice\<close>

definition expand_template_params :: "string \<Rightarrow> params" where
  "expand_template_params raw_template =
     [(''action'', ''expandtemplates''), (''text'', raw_template), (''prop'', ''wikitext''),
      (''format'', ''json'')]"

definition expand_template :: "string \<Rightarrow> (params \<Rightarrow> json) \<Rightarrow> json outcome" where
  "expand_template raw_template api =
     (let response = api (expand_template_params raw_template);
          failed = \<lparr>requests = 1, logged = [Warning (CouldNotExpandTemplate raw_template)],
                    result = Inr (JStr '''')\<rparr>
      in case py_in ''expandtemplates'' response of
           Inl e \<Rightarrow> \<lparr>requests = 1, logged = [], result = Inl e\<rparr>
         | Inr False \<Rightarrow> failed
         | Inr True \<Rightarrow>
             (case py_getitem response (JStr ''expandtemplates'') of
                Inl e \<Rightarrow> \<lparr>requests = 1, logged = [], result = Inl e\<rparr>
              | Inr expanded \<Rightarrow>
                  (case py_in ''wikitext'' expanded of
                     Inl e \<Rightarrow> \<lparr>requests = 1, logged = [], result = Inl e\<rparr>
                   | Inr False \<Rightarrow> failed
                   | Inr True \<Rightarrow>
                       \<lparr>requests = 1, logged = [],
                        result = py_getitem expanded (JStr ''wikitext'')\<rparr>)))"

definition cc0_placeholder :: string where
  "cc0_placeholder = ''TODO translate https://www.4training.net/Template:CC0Notice''"

definition get_cc0_notice :: "string \<Rightarrow> string \<Rightarrow> (params \<Rightarrow> json) \<Rightarrow> json outcome" where
  "get_cc0_notice version languagecode api =
     (let call = expand_template (''{{CC0Notice/'' @ languagecode @ ''|'' @ version @ ''}}'') api
      in case result call of
           Inl e \<Rightarrow> call
         | Inr expanded \<Rightarrow>
             (case py_in ''mw-translate-fuzzy'' expanded of
                Inl e \<Rightarrow> call\<lparr>result := Inl e\<rparr>
              | Inr is_fuzzy \<Rightarrow>
                  (let lg = (if is_fuzzy then logged call @ [Warning CC0NotCorrectlyTranslated]
                             else logged call)
                   in case py_in ''Template:CC0Notice'' expanded of
                        Inl e \<Rightarrow> call\<lparr>logged := lg, result := Inl e\<rparr>
                      | Inr True \<Rightarrow>
                          call\<lparr>logged := lg @ [Warning CC0NotTranslated],
                               result := Inr (JStr cc0_placeholder)\<rparr>
                      | Inr False \<Rightarrow> call\<lparr>logged := lg, result := Inr expanded\<rparr>)))"

section \<open>Sample replies of the lookups\<close>

definition pages_reply :: "(string \<times> json) list \<Rightarrow> json" where
  "pages_reply pages = JObj [(''batchcomplete'', JStr ''''), (''query'', JObj [(''pages'', JObj pages)])]"

definition sample_file_page :: json where
  "sample_file_page =
     JObj [(''pageid'', JInt 1234), (''title'', JStr ''File:Prayer.pdf''),
           (''imageinfo'',
            JArr [JObj [(''url'', JStr ''https://www.4training.net/mediawiki/images/Prayer.pdf'')]])]"

definition sample_missing_page :: json where
  "sample_missing_page = JObj [(''title'', JStr ''File:Nothing.pdf''), (''missing'', JStr '''')]"

definition sample_templates_page :: json where
  "sample_templates_page =
     JObj [(''pageid'', JInt 7), (''title'', JStr ''Prayer''),
           (''templates'',
            JArr [JObj [(''ns'', JInt 10), (''title'', JStr ''Template:Italic/en'')],
                  JObj [(''ns'', JInt 10)],
                  JObj [(''ns'', JInt 10), (''title'', JStr ''Template:CC0Notice'')],
                  JObj [(''ns'', JInt 10), (''title'', JStr ''Template:Version/de/draft'')]])]"

definition wikitext_reply :: "string \<Rightarrow> json" where
  "wikitext_reply w = JObj [(''expandtemplates'', JObj [(''wikitext'', JStr w)])]"

definition units_reply :: "json list \<Rightarrow> json" where
  "units_reply units = JObj [(''query'', JObj [(''messagecollection'', JArr units)])]"

definition translation_unit :: "string \<Rightarrow> string \<Rightarrow> string \<Rightarrow> json" where
  "translation_unit k d t =
     JObj [(''key'', JStr k), (''definition'', JStr d), (''translation'', JStr t)]"

section \<open>Properties of the string functions\<close>

lemma str_replace_single_empty: "str_replace [x] [] s = remove_char x s"
  by (induction s) (simp_all add: remove_char_def)

lemma str_replace_group:
  "str_replace [a, CHR ''(''] ''-'' s = group_to_hyphen a s"
  by (induction a s rule: group_to_hyphen.induct) simp_all

lemma title_to_message_steps:
  "title_to_message lower t = transform_steps lower CHR ''_'' t"
  by (simp add: title_to_message_def transform_steps_def removal_steps_def
      str_replace_single_empty str_replace_group)

lemma set_remove_char: "set (remove_char x s) = set s - {x}"
  by (auto simp: remove_char_def)

lemma removal_steps_alphabet:
  "CHR '')'' \<notin> set (removal_steps a t)" "CHR 0x27 \<notin> set (removal_steps a t)"
  "CHR ''_'' \<notin> set (removal_steps a t)" "CHR '':'' \<notin> set (removal_steps a t)"
  by (simp_all add: removal_steps_def set_remove_char)

lemma of_char_ascii_lower_char:
  "(of_char (ascii_lower_char c) :: nat) =
     (if is_ascii_upper c then of_char c + 32 else of_char c)"
  by (simp add: ascii_lower_char_def is_ascii_upper_def)

lemma ascii_lower_char_not_upper: "\<not> is_ascii_upper (ascii_lower_char c)"
  using of_char_ascii_lower_char [of c] by (simp add: is_ascii_upper_def split: if_splits)

lemma ascii_lower_char_eq_nonletter:
  assumes "ascii_lower_char c = d" and "(of_char d :: nat) < 97"
  shows "c = d"
proof (cases "is_ascii_upper c")
  case True
  with of_char_ascii_lower_char [of c] assms show ?thesis
    by (auto simp: is_ascii_upper_def)
next
  case False
  with assms show ?thesis by (simp add: ascii_lower_char_def)
qed

lemma ascii_lower_on_ascii: "lower_on_ascii ascii_lower"
  by (simp add: lower_on_ascii_def)

lemma ascii_lower_keeps_alphabet: "lower_keeps_alphabet ascii_lower"
proof -
  have upper: "filter is_ascii_upper (ascii_lower s) = []" for s
    by (simp add: ascii_lower_def filter_empty_conv ascii_lower_char_not_upper)
  have keep: "d \<in> set s" if "d \<in> set (ascii_lower s)" and "(of_char d :: nat) < 97" for d s
  proof -
    from that(1) obtain c where c: "c \<in> set s" and "ascii_lower_char c = d"
      by (auto simp: ascii_lower_def)
    with that(2) have "c = d" by (rule_tac ascii_lower_char_eq_nonletter)
    with c show ?thesis by simp
  qed
  show ?thesis
    unfolding lower_keeps_alphabet_def
  proof (intro allI conjI ballI impI)
    fix s
    show "filter is_ascii_upper (ascii_lower s) = []" by (rule upper)
  next
    fix s c
    assume "c \<in> {CHR '')'', CHR 0x27, CHR ''_'', CHR '':''}" and "c \<in> set (ascii_lower s)"
    then show "c \<in> set s" by (auto intro: keep)
  qed
qed

section \<open>Language direction\<close>

text \<open>
  Claim C8. For every string, \<open>get_language_direction\<close> returns \<open>rtl\<close> exactly when the
  string is one of the six codes ar, fa, ckb, ar-urdun, ps, ur, and \<open>ltr\<close> exactly when it
  is none of them; the empty string, which is none of them, gives \<open>ltr\<close>.
\<close>

theorem get_language_direction_rtl_iff:
  "(get_language_direction c = ''rtl'') =
     (c \<in> {''ar'', ''fa'', ''ckb'', ''ar-urdun'', ''ps'', ''ur''}) \<and>
   (get_language_direction c = ''ltr'') =
     (c \<notin> {''ar'', ''fa'', ''ckb'', ''ar-urdun'', ''ps'', ''ur''}) \<and>
   get_language_direction '''' = ''ltr'' \<and>
   get_language_direction ''de'' = ''ltr'' \<and>
   get_language_direction ''ar-urdun'' = ''rtl''"
  by (simp add: get_language_direction_def RTL_def)

section \<open>Title to system message: results\<close>

text \<open>
  Claim C5, as stated. The step list of the claim converts the group made of a space and
  an opening parenthesis. On the worksheet title \<open>God's_Story_(five_fingers)\<close>, a string of
  ASCII characters that \<open>str.lower()\<close> lower-cases as \<open>ascii_lower\<close> does, the steps so
  described leave the opening parenthesis in place, whereas \<open>title_to_message\<close> returns
  \<open>sidebar-godsstory-fivefingers\<close>: the program is not that transform.
\<close>

theorem title_to_message_space_group_counterexample:
  "title_to_message ascii_lower ''God's_Story_(five_fingers)'' =
     ''sidebar-godsstory-fivefingers'' \<and>
   transform_steps ascii_lower CHR '' '' ''God's_Story_(five_fingers)'' =
     ''sidebar-godsstory(fivefingers'' \<and>
   title_to_message ascii_lower ''God's_Story_(five_fingers)'' \<noteq>
     transform_steps ascii_lower CHR '' '' ''God's_Story_(five_fingers)''"
  by code_simp

text \<open>
  Claim C5, amended. \<open>title_to_message\<close> is the transform that applies, in this order:
  remove hyphens, convert every underscore followed by an opening parenthesis to a
  hyphen, remove closing parentheses, remove apostrophes, remove underscores, remove
  colons, lower-case with \<open>str.lower()\<close>, prepend \<open>sidebar-\<close>. This holds for every title
  and whatever \<open>str.lower()\<close> is. The three examples of the claim hold as soon as
  \<open>str.lower()\<close> lower-cases the ASCII capitals of an ASCII string and leaves its other
  characters.
\<close>

theorem title_to_message_is_transform:
  "title_to_message lower t =
     ''sidebar-'' @
       lower
         (filter (\<lambda>c. c \<noteq> CHR '':'')
           (filter (\<lambda>c. c \<noteq> CHR ''_'')
             (filter (\<lambda>c. c \<noteq> CHR 0x27)
               (filter (\<lambda>c. c \<noteq> CHR '')'')
                 (group_to_hyphen CHR ''_'' (filter (\<lambda>c. c \<noteq> CHR ''-'') t)))))) \<and>
   (lower_on_ascii lower \<longrightarrow>
      title_to_message lower ''Prayer'' = ''sidebar-prayer'' \<and>
      title_to_message lower ''The_Three-Thirds_Process'' = ''sidebar-thethreethirdsprocess'' \<and>
      title_to_message lower ''God's_Story_(five_fingers)'' = ''sidebar-godsstory-fivefingers'')"
proof (intro conjI impI)
  show "title_to_message lower t =
     ''sidebar-'' @
       lower
         (filter (\<lambda>c. c \<noteq> CHR '':'')
           (filter (\<lambda>c. c \<noteq> CHR ''_'')
             (filter (\<lambda>c. c \<noteq> CHR 0x27)
               (filter (\<lambda>c. c \<noteq> CHR '')'')
                 (group_to_hyphen CHR ''_'' (filter (\<lambda>c. c \<noteq> CHR ''-'') t))))))"
    by (simp only: title_to_message_steps transform_steps_def removal_steps_def remove_char_def)
next
  assume ascii: "lower_on_ascii lower"
  have low: "lower s = ascii_lower s" if "list_all is_ascii s" for s
    using ascii that by (simp add: lower_on_ascii_def)
  have b1: "removal_steps CHR ''_'' ''Prayer'' = ''Prayer''" by code_simp
  have a1: "list_all is_ascii ''Prayer''" by code_simp
  have l1: "ascii_lower ''Prayer'' = ''prayer''" by code_simp
  show "title_to_message lower ''Prayer'' = ''sidebar-prayer''"
    by (simp only: title_to_message_steps transform_steps_def b1 low [OF a1] l1 append.simps)
next
  assume ascii: "lower_on_ascii lower"
  have low: "lower s = ascii_lower s" if "list_all is_ascii s" for s
    using ascii that by (simp add: lower_on_ascii_def)
  have b2: "removal_steps CHR ''_'' ''The_Three-Thirds_Process'' = ''TheThreeThirdsProcess''"
    by code_simp
  have a2: "list_all is_ascii ''TheThreeThirdsProcess''" by code_simp
  have l2: "ascii_lower ''TheThreeThirdsProcess'' = ''thethreethirdsprocess''" by code_simp
  show "title_to_message lower ''The_Three-Thirds_Process'' = ''sidebar-thethreethirdsprocess''"
    by (simp only: title_to_message_steps transform_steps_def b2 low [OF a2] l2 append.simps)
next
  assume ascii: "lower_on_ascii lower"
  have low: "lower s = ascii_lower s" if "list_all is_ascii s" for s
    using ascii that by (simp add: lower_on_ascii_def)
  have b3: "removal_steps CHR ''_'' ''God's_Story_(five_fingers)'' = ''GodsStory-fivefingers''"
    by code_simp
  have a3: "list_all is_ascii ''GodsStory-fivefingers''" by code_simp
  have l3: "ascii_lower ''GodsStory-fivefingers'' = ''godsstory-fivefingers''" by code_simp
  show "title_to_message lower ''God's_Story_(five_fingers)'' = ''sidebar-godsstory-fivefingers''"
    by (simp only: title_to_message_steps transform_steps_def b3 low [OF a3] l3 append.simps)
qed

theorem title_to_message_is_transform_witness:
  "lower_on_ascii ascii_lower \<and>
   title_to_message ascii_lower ''Prayer'' = ''sidebar-prayer'' \<and>
   title_to_message ascii_lower ''The_Three-Thirds_Process'' = ''sidebar-thethreethirdsprocess'' \<and>
   title_to_message ascii_lower ''God's_Story_(five_fingers)'' = ''sidebar-godsstory-fivefingers''"
  using title_to_message_is_transform [of ascii_lower "[]"] ascii_lower_on_ascii by blast

text \<open>
  Claim C10. For every input string the output of \<open>title_to_message\<close> starts with
  \<open>sidebar-\<close>, whatever \<open>str.lower()\<close> is. It contains no closing parenthesis, no
  apostrophe, no underscore, no colon and no upper-case ASCII letter, given what
  \<open>lower_keeps_alphabet\<close> states of \<open>str.lower()\<close>: its result holds no ASCII capital and
  none of these four characters that its argument does not hold.
\<close>

theorem title_to_message_output_alphabet:
  "take 8 (title_to_message lower t) = ''sidebar-'' \<and>
   (lower_keeps_alphabet lower \<longrightarrow>
      CHR '')'' \<notin> set (title_to_message lower t) \<and>
      CHR 0x27 \<notin> set (title_to_message lower t) \<and>
      CHR ''_'' \<notin> set (title_to_message lower t) \<and>
      CHR '':'' \<notin> set (title_to_message lower t) \<and>
      filter is_ascii_upper (title_to_message lower t) = [])"
proof (intro conjI impI)
  define body where "body = removal_steps CHR ''_'' t"
  have out: "title_to_message lower t = ''sidebar-'' @ lower body"
    by (simp add: title_to_message_steps transform_steps_def body_def)
  show "take 8 (title_to_message lower t) = ''sidebar-''"
    unfolding out by simp
  assume keeps: "lower_keeps_alphabet lower"
  then have upper: "filter is_ascii_upper (lower body) = []"
    unfolding lower_keeps_alphabet_def by blast
  from keeps have kept: "c \<in> set body"
    if "c \<in> {CHR '')'', CHR 0x27, CHR ''_'', CHR '':''}" and "c \<in> set (lower body)" for c
    using that unfolding lower_keeps_alphabet_def by blast
  have body: "CHR '')'' \<notin> set body" "CHR 0x27 \<notin> set body"
    "CHR ''_'' \<notin> set body" "CHR '':'' \<notin> set body"
    unfolding body_def by (rule removal_steps_alphabet)+
  have lowered: "CHR '')'' \<notin> set (lower body)" "CHR 0x27 \<notin> set (lower body)"
    "CHR ''_'' \<notin> set (lower body)" "CHR '':'' \<notin> set (lower body)"
    using body kept by blast+
  show "CHR '')'' \<notin> set (title_to_message lower t)"
    unfolding out using lowered(1) by simp
  show "CHR 0x27 \<notin> set (title_to_message lower t)"
    unfolding out using lowered(2) by simp
  show "CHR ''_'' \<notin> set (title_to_message lower t)"
    unfolding out using lowered(3) by simp
  show "CHR '':'' \<notin> set (title_to_message lower t)"
    unfolding out using lowered(4) by simp
  show "filter is_ascii_upper (title_to_message lower t) = []"
    unfolding out using upper by (simp add: is_ascii_upper_def)
qed

theorem title_to_message_output_alphabet_witness:
  "lower_keeps_alphabet ascii_lower \<and>
   title_to_message ascii_lower ''Forgiving_Step_by_Step:_Training_Notes'' =
     ''sidebar-forgivingstepbysteptrainingnotes'' \<and>
   CHR '')'' \<notin> set (title_to_message ascii_lower ''Forgiving_Step_by_Step:_Training_Notes'') \<and>
   CHR 0x27 \<notin> set (title_to_message ascii_lower ''Forgiving_Step_by_Step:_Training_Notes'') \<and>
   CHR ''_'' \<notin> set (title_to_message ascii_lower ''Forgiving_Step_by_Step:_Training_Notes'') \<and>
   CHR '':'' \<notin> set (title_to_message ascii_lower ''Forgiving_Step_by_Step:_Training_Notes'') \<and>
   filter is_ascii_upper
     (title_to_message ascii_lower ''Forgiving_Step_by_Step:_Training_Notes'') = []"
proof -
  have computed: "title_to_message ascii_lower ''Forgiving_Step_by_Step:_Training_Notes'' =
     ''sidebar-forgivingstepbysteptrainingnotes''"
    by code_simp
  from title_to_message_output_alphabet
    [of ascii_lower "''Forgiving_Step_by_Step:_Training_Notes''"]
    ascii_lower_keeps_alphabet computed
  show ?thesis by blast
qed

section \<open>Translation statistics fetch: results\<close>

lemma loop_stop:
  assumes "counter < 4" and "py_in ''continue'' (api (Suc n) (msggroupstats_params page)) = Inr False"
  shows "msggroupstats_loop api page counter js n lg =
     \<lparr>requests = Suc n, logged = lg @ [Info (RetrievingTranslationInfo page counter)],
      result = Inr (counter, Some (api (Suc n) (msggroupstats_params page)))\<rparr>"
  using assms by (subst msggroupstats_loop.simps) (simp add: Let_def)

lemma loop_again:
  assumes "counter < 4" and "py_in ''continue'' (api (Suc n) (msggroupstats_params page)) = Inr True"
  shows "msggroupstats_loop api page counter js n lg =
     msggroupstats_loop api page (counter + 1)
       (Some (api (Suc n) (msggroupstats_params page))) (Suc n)
       (lg @ [Info (RetrievingTranslationInfo page counter)])"
  using assms by (subst msggroupstats_loop.simps) (simp add: Let_def)

lemma loop_exit:
  "msggroupstats_loop api page 4 js n lg = \<lparr>requests = n, logged = lg, result = Inr (4, js)\<rparr>"
  by (subst msggroupstats_loop.simps) simp

lemma api_reply_cases:
  assumes "api_reply r"
  obtains kvs where "r = JObj kvs" "map_of kvs ''query'' = None"
  | kvs q where "r = JObj kvs" "map_of kvs ''query'' = Some q" "supports_in q"
  using assms by (cases r) (auto split: option.splits)

lemma supports_in_py_in: "supports_in q \<Longrightarrow> \<exists>b. py_in k q = Inr b"
  by (cases q) simp_all

lemma api_reply_tail:
  assumes "api_reply r"
  shows "py_bind (py_in ''query'' r) (\<lambda>has_query.
           if \<not> has_query then Inr (JStr '''')
           else py_bind (py_getitem r (JStr ''query'')) (\<lambda>query.
             py_bind (py_in ''messagegroupstats'' query) (\<lambda>has_stats.
               if \<not> has_stats then Inr (JStr '''') else Inr r)))
         = Inr (if has_stats r then r else JStr '''')"
  using assms
proof (cases rule: api_reply_cases)
  case (1 kvs)
  then show ?thesis by (simp add: has_stats_def)
next
  case (2 kvs q)
  from supports_in_py_in [OF 2(3)] obtain b where "py_in ''messagegroupstats'' q = Inr b" by blast
  with 2 show ?thesis by (simp add: has_stats_def)
qed

lemma api_reply_continue:
  "api_reply r \<Longrightarrow> py_in ''continue'' r = Inr (has_continue r)"
  by (cases r) (simp_all add: has_continue_def)

lemma get_msggroupstats_of_loop:
  assumes "msggroupstats_loop api page 1 None 0 [] =
             \<lparr>requests = n, logged = lg, result = Inr (counter, Some r)\<rparr>"
    and "api_reply r"
  shows "get_msggroupstats page api =
     \<lparr>requests = n,
      logged = (if has_continue r \<or> counter = 4 then lg @ [Warning (StillNoResult page)] else lg),
      result = Inr (if has_stats r then r else JStr '''')\<rparr>"
  unfolding get_msggroupstats_def assms(1)
  by (simp add: Let_def api_reply_continue [OF assms(2)] api_reply_tail [OF assms(2)])

lemma get_msggroupstats_outcome:
  assumes r: "api_reply (api 1 (msggroupstats_params page))"
    "api_reply (api 2 (msggroupstats_params page))"
    "api_reply (api 3 (msggroupstats_params page))"
  defines "r1 \<equiv> api 1 (msggroupstats_params page)"
    and "r2 \<equiv> api 2 (msggroupstats_params page)"
    and "r3 \<equiv> api 3 (msggroupstats_params page)"
  shows "get_msggroupstats page api =
     (if \<not> has_continue r1 then
        \<lparr>requests = 1, logged = [Info (RetrievingTranslationInfo page 1)],
         result = Inr (if has_stats r1 then r1 else JStr '''')\<rparr>
      else if \<not> has_continue r2 then
        \<lparr>requests = 2,
         logged = [Info (RetrievingTranslationInfo page 1), Info (RetrievingTranslationInfo page 2)],
         result = Inr (if has_stats r2 then r2 else JStr '''')\<rparr>
      else
        \<lparr>requests = 3,
         logged = [Info (RetrievingTranslationInfo page 1), Info (RetrievingTranslationInfo page 2),
                   Info (RetrievingTranslationInfo page 3)] @
                  (if has_continue r3 then [Warning (StillNoResult page)] else []),
         result = Inr (if has_stats r3 then r3 else JStr '''')\<rparr>)"
proof -
  let ?l1 = "[Info (RetrievingTranslationInfo page 1)]"
  let ?l2 = "[Info (RetrievingTranslationInfo page 1), Info (RetrievingTranslationInfo page 2)]"
  let ?l3 = "[Info (RetrievingTranslationInfo page 1), Info (RetrievingTranslationInfo page 2),
              Info (RetrievingTranslationInfo page 3)]"
  have c1: "py_in ''continue'' (api (Suc 0) (msggroupstats_params page)) = Inr (has_continue r1)"
    using api_reply_continue [OF r(1)] by (simp add: r1_def eval_nat_numeral)
  have c2: "py_in ''continue'' (api 2 (msggroupstats_params page)) = Inr (has_continue r2)"
    using api_reply_continue [OF r(2)] by (simp add: r2_def eval_nat_numeral)
  have c3: "py_in ''continue'' (api 3 (msggroupstats_params page)) = Inr (has_continue r3)"
    using api_reply_continue [OF r(3)] by (simp add: r3_def eval_nat_numeral)
  show ?thesis
  proof (cases "has_continue r1")
    case False
    with c1 have "msggroupstats_loop api page 1 None 0 [] =
        \<lparr>requests = 1, logged = ?l1, result = Inr (1, Some r1)\<rparr>"
      using loop_stop [of 1 api 0 page None "[]"] by (simp add: r1_def eval_nat_numeral)
    from get_msggroupstats_of_loop [OF this] r(1) False show ?thesis
      by (simp add: r1_def eval_nat_numeral)
  next
    case h1: True
    with c1 have step1: "msggroupstats_loop api page 1 None 0 [] =
        msggroupstats_loop api page 2 (Some r1) 1 ?l1"
      using loop_again [of 1 api 0 page None "[]"] by (simp add: r1_def eval_nat_numeral)
    show ?thesis
    proof (cases "has_continue r2")
      case False
      with c2 have "msggroupstats_loop api page 2 (Some r1) 1 ?l1 =
        \<lparr>requests = 2, logged = ?l2, result = Inr (2, Some r2)\<rparr>"
        using loop_stop [of 2 api 1 page "Some r1" ?l1]
        by (simp add: r2_def eval_nat_numeral)
      with step1 have "msggroupstats_loop api page 1 None 0 [] =
        \<lparr>requests = 2, logged = ?l2, result = Inr (2, Some r2)\<rparr>" by (simp add: eval_nat_numeral)
      from get_msggroupstats_of_loop [OF this] r(2) False h1 show ?thesis
        by (simp add: r2_def eval_nat_numeral)
    next
      case h2: True
      with c2 have step2:
        "msggroupstats_loop api page 2 (Some r1) 1 ?l1 =
         msggroupstats_loop api page 3 (Some r2) 2 ?l2"
        using loop_again [of 2 api 1 page "Some r1" ?l1]
        by (simp add: r2_def eval_nat_numeral)
      have step3: "msggroupstats_loop api page 3 (Some r2) 2 ?l2 =
         \<lparr>requests = 3, logged = ?l3,
          result = Inr (if has_continue r3 then 4 else 3, Some r3)\<rparr>"
      proof (cases "has_continue r3")
        case False
        with c3 show ?thesis
          using loop_stop [of 3 api 2 page "Some r2" ?l2]
          by (simp add: r3_def eval_nat_numeral)
      next
        case True
        with c3 show ?thesis
          using loop_again [of 3 api 2 page "Some r2" ?l2]
          using loop_exit [of api page] by (simp add: r3_def eval_nat_numeral)
      qed
      from step1 step2 step3 have "msggroupstats_loop api page 1 None 0 [] =
         \<lparr>requests = 3, logged = ?l3,
          result = Inr (if has_continue r3 then 4 else 3, Some r3)\<rparr>" by (simp add: eval_nat_numeral)
      from get_msggroupstats_of_loop [OF this] r(3) h1 h2 show ?thesis
        by (simp add: r3_def eval_nat_numeral)
    qed
  qed
qed

lemma loop_requests_bound:
  "counter \<le> 4 \<Longrightarrow>
     requests (msggroupstats_loop api page counter js n lg) + counter \<le> n + 4"
proof (induction api page counter js n lg rule: msggroupstats_loop.induct)
  case (1 api page counter js n lg)
  show ?case
  proof (cases "counter < 4")
    case False
    with "1.prems" show ?thesis
      by (subst msggroupstats_loop.simps) simp
  next
    case True
    show ?thesis
    proof (cases "py_in ''continue'' (api (Suc n) (msggroupstats_params page))")
      case (Inl e)
      with True show ?thesis
        by (subst msggroupstats_loop.simps) (simp add: Let_def)
    next
      case (Inr again)
      show ?thesis
      proof (cases again)
        case False
        with True Inr show ?thesis
          by (subst msggroupstats_loop.simps) (simp add: Let_def)
      next
        case again: True
        then have b: "again = True" by simp
        from True have "counter + 1 \<le> 4" by simp
        from "1.IH" [OF True refl refl Inr b this] True Inr again show ?thesis
          by (subst msggroupstats_loop.simps) (simp add: Let_def)
      qed
    qed
  qed
qed

lemma get_msggroupstats_requests_le_3: "requests (get_msggroupstats page api) \<le> 3"
proof -
  have "requests (get_msggroupstats page api) = requests (msggroupstats_loop api page 1 None 0 [])"
    by (simp add: get_msggroupstats_def Let_def split: sum.splits prod.splits option.splits)
  with loop_requests_bound [of 1 api page None 0 "[]"] show ?thesis by simp
qed

text \<open>
  Claim C6. When the wiki answers the statistics requests with JSON objects (whose member
  \<open>query\<close>, if present, is an object, a list or a string), \<open>get_msggroupstats\<close> sends at
  least one and at most three requests. It stops at the first reply without the key
  \<open>continue\<close>. If all three replies carry it, a warning is logged, and no warning
  otherwise. In every case the call returns normally: the last reply received when that
  reply has the keys \<open>query\<close> and \<open>messagegroupstats\<close>, and the empty string when it has not.
\<close>

theorem get_msggroupstats_bounded_poll:
  assumes "\<forall>k\<in>{1, 2, 3}. api_reply (api k (msggroupstats_params page))"
  shows
    "(let r = (\<lambda>k. api k (msggroupstats_params page));
          out = get_msggroupstats page api;
          n = requests out
      in 1 \<le> n \<and> n \<le> 3 \<and>
         n = (if \<not> has_continue (r 1) then 1 else if \<not> has_continue (r 2) then 2 else 3) \<and>
         filter is_warning (logged out) =
           (if has_continue (r 1) \<and> has_continue (r 2) \<and> has_continue (r 3)
            then [Warning (StillNoResult page)] else []) \<and>
         result out = Inr (if has_stats (r n) then r n else JStr ''''))"
proof -
  have r: "api_reply (api 1 (msggroupstats_params page))"
    "api_reply (api 2 (msggroupstats_params page))"
    "api_reply (api 3 (msggroupstats_params page))"
    using assms by simp_all
  show ?thesis
    unfolding Let_def get_msggroupstats_outcome [where api = api and page = page, OF r] by simp
qed

theorem get_msggroupstats_bounded_poll_witness:
  "requests (get_msggroupstats ''Church'' sample_busy_api) = 3 \<and>
   filter is_warning (logged (get_msggroupstats ''Church'' sample_busy_api)) =
     [Warning (StillNoResult ''Church'')] \<and>
   result (get_msggroupstats ''Church'' sample_busy_api) = Inr sample_partial_reply"
proof -
  have reply: "api_reply sample_partial_reply" "has_continue sample_partial_reply"
    "has_stats sample_partial_reply"
    by (simp_all add: sample_partial_reply_def has_continue_def has_stats_def)
  have "\<forall>k\<in>{1, 2, 3}. api_reply (sample_busy_api k (msggroupstats_params ''Church''))"
    by (simp add: sample_busy_api_def reply)
  from get_msggroupstats_bounded_poll
      [where api = sample_busy_api and page = "''Church''", OF this]
  show ?thesis
    by (simp add: Let_def sample_busy_api_def reply)
qed

lemma get_msggroupstats_sample_stats:
  "get_msggroupstats page sample_stats_api =
     \<lparr>requests = 1, logged = [Info (RetrievingTranslationInfo page 1)],
      result = Inr (sample_stats_api 1 (msggroupstats_params page))\<rparr>"
proof -
  have "api_reply (sample_stats_api k (msggroupstats_params page))" for k
    by (simp add: sample_stats_api_def stats_reply_def)
  from get_msggroupstats_outcome [where api = sample_stats_api and page = page, OF this this this]
  show ?thesis
    by (simp add: has_continue_def has_stats_def sample_stats_api_def stats_reply_def)
qed

text \<open>
  Claim C2. Whenever the statistics fetch fails, that is \<open>get_msggroupstats\<close> returns the
  empty string, \<open>list_page_translations\<close> returns the empty list. This is the case in
  particular when the replies are JSON objects and the last one received lacks the key
  \<open>query\<close>, or the key \<open>messagegroupstats\<close> under it.
\<close>

theorem list_page_translations_fetch_failed:
  assumes "result (get_msggroupstats page api) = Inr (JStr '''') \<or>
      ((\<forall>k\<in>{1, 2, 3}. api_reply (api k (msggroupstats_params page))) \<and>
       \<not> has_stats (api (requests (get_msggroupstats page api)) (msggroupstats_params page)))"
  shows "result (list_page_translations page api) = Inr []"
proof -
  have "result (get_msggroupstats page api) = Inr (JStr '''')"
    using assms
  proof
    assume "result (get_msggroupstats page api) = Inr (JStr '''')"
    then show ?thesis .
  next
    assume h: "(\<forall>k\<in>{1, 2, 3}. api_reply (api k (msggroupstats_params page))) \<and>
       \<not> has_stats (api (requests (get_msggroupstats page api)) (msggroupstats_params page))"
    then have r: "api_reply (api 1 (msggroupstats_params page))"
      "api_reply (api 2 (msggroupstats_params page))"
      "api_reply (api 3 (msggroupstats_params page))"
      by simp_all
    from h show ?thesis
      unfolding get_msggroupstats_outcome [where api = api and page = page, OF r]
      by (simp split: if_splits)
  qed
  then show ?thesis
    by (simp add: list_page_translations_def Let_def)
qed

theorem list_page_translations_fetch_failed_witness:
  "result (get_msggroupstats ''Church'' sample_error_api) = Inr (JStr '''') \<and>
   result (list_page_translations ''Church'' sample_error_api) = Inr []"
proof -
  have reply: "api_reply (sample_error_api k (msggroupstats_params ''Church''))"
    "\<not> has_stats (sample_error_api k (msggroupstats_params ''Church''))"
    "\<not> has_continue (sample_error_api k (msggroupstats_params ''Church''))" for k
    by (simp_all add: sample_error_api_def has_stats_def has_continue_def)
  have failed: "result (get_msggroupstats ''Church'' sample_error_api) = Inr (JStr '''')"
    unfolding get_msggroupstats_outcome
      [where api = sample_error_api and page = "''Church''", OF reply(1) reply(1) reply(1)]
    by (simp add: reply)
  from list_page_translations_fetch_failed [of "''Church''" sample_error_api] failed
  show ?thesis by simp
qed

section \<open>Translation completeness policy: results\<close>

lemma translation_line_classify:
  assumes "read_stats line = Some s" and "0 \<le> translated s"
  shows "translation_line page line =
     Inr (policy_log page s, if included s then [JStr (language s)] else [])"
proof -
  from assms(1) obtain kvs where line: "line = JObj kvs"
    by (cases line) simp_all
  from assms(1) line have fields:
    "map_of kvs ''language'' = Some (JStr (language s))"
    "map_of kvs ''total'' = Some (JInt (total s))"
    "map_of kvs ''translated'' = Some (JInt (translated s))"
    "map_of kvs ''fuzzy'' = Some (JInt (fuzzy s))"
    by (auto split: option.splits json.splits)
  show ?thesis
    using assms(2)
    by (simp add: translation_line_def line fields py_gt_def py_sub_def py_add_def py_lt_def
        classify_def incomplete_warning_def policy_log_def included_def)
qed

lemma translations_loop_classify:
  assumes "map read_stats lines = map Some feed" and "\<forall>s\<in>set feed. 0 \<le> translated s"
  shows "translations_loop page lines acc lg =
     (lg @ concat (map (policy_log page) feed),
      Inr (acc @ map (\<lambda>s. JStr (language s)) (filter included feed)))"
  using assms
proof (induction lines arbitrary: feed acc lg)
  case Nil
  then show ?case by simp
next
  case (Cons line lines)
  then obtain s rest where feed: "feed = s # rest" and s: "read_stats line = Some s"
    and rest: "map read_stats lines = map Some rest"
    by (cases feed) auto
  from Cons.prems feed have nonneg: "0 \<le> translated s" "\<forall>s\<in>set rest. 0 \<le> translated s"
    by simp_all
  show ?case
    unfolding feed
    by (simp add: translation_line_classify [OF s nonneg(1)] Cons.IH [OF rest nonneg(2)])
qed

lemma policy_log_warnings:
  "filter is_warning (policy_log page s) =
     (if classify s = Incomplete then [incomplete_warning page s] else [])"
  by (cases "classify s") (simp_all add: policy_log_def incomplete_warning_def)

lemma list_page_translations_of_feed:
  assumes stats: "result (get_msggroupstats page api) = Inr (JObj kvs)"
    and query: "map_of kvs ''query'' = Some (JObj q)"
    and lines: "map_of q ''messagegroupstats'' = Some (JArr lines)"
    and feed: "map read_stats lines = map Some feed"
    and nonneg: "\<forall>s\<in>set feed. 0 \<le> translated s"
  shows "list_page_translations page api =
     \<lparr>requests = requests (get_msggroupstats page api),
      logged = logged (get_msggroupstats page api) @ concat (map (policy_log page) feed),
      result = Inr (map (\<lambda>s. JStr (language s)) (filter included feed))\<rparr>"
  by (simp add: list_page_translations_def Let_def stats query lines
      translations_loop_classify [OF feed nonneg])

text \<open>
  Claim C1. When the statistics fetch returns a feed whose entries carry a language code
  and the counts \<open>total\<close>, \<open>translated\<close> and \<open>fuzzy\<close> (counts of translation units, so
  \<open>translated\<close> is not negative), \<open>list_page_translations\<close> returns, in the order of the
  feed, the language codes of exactly the entries that the three-way classification
  includes: an entry with \<open>translated = 0\<close> is skipped, an entry with
  \<open>total - fuzzy - translated > 4\<close> is left out, every other entry is in the result. The
  included entries with \<open>translated + fuzzy < total\<close> are those for which a warning is
  logged, and no other warning is added to those of the fetch.
\<close>

theorem list_page_translations_classification:
  assumes "result (get_msggroupstats page api) = Inr (JObj kvs)"
    and "map_of kvs ''query'' = Some (JObj q)"
    and "map_of q ''messagegroupstats'' = Some (JArr lines)"
    and "map read_stats lines = map Some feed"
    and "\<forall>s\<in>set feed. 0 \<le> translated s"
  shows "result (list_page_translations page api) =
       Inr (map (\<lambda>s. JStr (language s))
             (filter (\<lambda>s. translated s \<noteq> 0 \<and> \<not> total s - fuzzy s - translated s > 4) feed)) \<and>
     filter is_warning (logged (list_page_translations page api)) =
       filter is_warning (logged (get_msggroupstats page api)) @
       map (incomplete_warning page)
         (filter (\<lambda>s. translated s \<noteq> 0 \<and> \<not> total s - fuzzy s - translated s > 4 \<and>
                       translated s + fuzzy s < total s) feed)"
proof -
  have incl: "included = (\<lambda>s. translated s \<noteq> 0 \<and> \<not> total s - fuzzy s - translated s > 4)"
    by (rule ext) (simp add: included_def classify_def)
  have incomplete: "(\<lambda>s. classify s = Incomplete) =
      (\<lambda>s. translated s \<noteq> 0 \<and> \<not> total s - fuzzy s - translated s > 4 \<and>
            translated s + fuzzy s < total s)"
    by (rule ext) (simp add: classify_def)
  have warn: "filter is_warning (concat (map (policy_log page) xs)) =
      map (incomplete_warning page) (filter (\<lambda>s. classify s = Incomplete) xs)" for xs
    by (induction xs) (simp_all add: policy_log_warnings)
  show ?thesis
    unfolding list_page_translations_of_feed [OF assms]
    by (simp add: incl warn incomplete)
qed

theorem list_page_translations_classification_witness:
  "result (list_page_translations ''Church'' sample_stats_api) =
     Inr [JStr ''en'', JStr ''de''] \<and>
   filter is_warning (logged (list_page_translations ''Church'' sample_stats_api)) =
     [incomplete_warning ''Church''
        \<lparr>language = ''de'', total = 10, translated = 6, fuzzy = 0\<rparr>]"
proof -
  let ?lines = "[stats_entry ''en'' 10 10 0, stats_entry ''de'' 10 6 0,
                 stats_entry ''fr'' 10 5 0, stats_entry ''ar'' 10 0 0]"
  let ?feed = "[\<lparr>language = ''en'', total = 10, translated = 10, fuzzy = 0\<rparr>,
                \<lparr>language = ''de'', total = 10, translated = 6, fuzzy = 0\<rparr>,
                \<lparr>language = ''fr'', total = 10, translated = 5, fuzzy = 0\<rparr>,
                \<lparr>language = ''ar'', total = 10, translated = 0, fuzzy = 0\<rparr>]"
  let ?q = "[(''messagegroupstats'', JArr ?lines)]"
  let ?kvs = "[(''batchcomplete'', JStr ''''), (''query'', JObj ?q)]"
  have h1: "result (get_msggroupstats ''Church'' sample_stats_api) = Inr (JObj ?kvs)"
    by (simp add: get_msggroupstats_sample_stats sample_stats_api_def stats_reply_def)
  have h2: "map_of ?kvs ''query'' = Some (JObj ?q)" by simp
  have h3: "map_of ?q ''messagegroupstats'' = Some (JArr ?lines)" by simp
  have h4: "map read_stats ?lines = map Some ?feed" by (simp add: stats_entry_def)
  have h5: "\<forall>s\<in>set ?feed. 0 \<le> translated s" by simp
  from list_page_translations_classification [OF h1 h2 h3 h4 h5] show ?thesis
    by (simp add: get_msggroupstats_sample_stats)
qed

section \<open>File URL lookup: results\<close>

text \<open>
  Claim C7, as stated. A single page whose id is negative but not -1 does not make
  \<open>get_file_url\<close> return \<open>None\<close>: the id is compared with -1 only. With the id -2, which
  \<open>int()\<close> reads as the integer -2, the function goes on to read the URL, which it
  returns when the page has one, and raises \<open>KeyError\<close> when the page has no
  \<open>imageinfo\<close>.
\<close>

theorem get_file_url_negative_id_counterexample:
  "get_file_url (reads_as ''-2'' (-2)) ''Prayer.pdf''
     (\<lambda>p. JObj [(''query'', JObj [(''pages'', JObj [(''-2'',
        JObj [(''title'', JStr ''File:Prayer.pdf''),
              (''imageinfo'', JArr [JObj [(''url'', JStr ''https://www.4training.net/Prayer.pdf'')]])])])])])
     = Inr (JStr ''https://www.4training.net/Prayer.pdf'') \<and>
   get_file_url (reads_as ''-2'' (-2)) ''Prayer.pdf''
     (\<lambda>p. JObj [(''query'', JObj [(''pages'', JObj [(''-2'',
        JObj [(''title'', JStr ''File:Prayer.pdf''), (''missing'', JStr '''')])])])])
     = Inl KeyError"
  by code_simp

lemma get_file_url_not_single:
  assumes "api (file_url_params filename) = JObj kvs"
    and "map_of kvs ''query'' = Some (JObj q)"
    and "map_of q ''pages'' = Some (JObj pages)"
    and "length pages \<noteq> 1"
  shows "get_file_url int_str filename api = Inr JNull"
  using assms by (simp add: get_file_url_def Let_def)

lemma get_file_url_single:
  assumes "api (file_url_params filename) = JObj kvs"
    and "map_of kvs ''query'' = Some (JObj q)"
    and "map_of q ''pages'' = Some (JObj [(pid, page)])"
  shows "get_file_url int_str filename api =
     (case int_str pid of
        None \<Rightarrow> Inl ValueError
      | Some n \<Rightarrow>
          if n = -1 then Inr JNull
          else
            py_bind (py_getitem page (JStr ''imageinfo'')) (\<lambda>imageinfo.
            py_bind (py_getitem imageinfo (JInt 0)) (\<lambda>info.
            py_getitem info (JStr ''url''))))"
  using assms by (simp add: get_file_url_def Let_def split: option.splits)

text \<open>
  Claim C7, amended. When the response lists the pages of the query as an object:
  \<open>get_file_url\<close> returns \<open>None\<close> when the number of pages listed is not exactly one, and
  when \<open>int()\<close> reads the id of the single page as -1; when \<open>int()\<close> reads the id of the
  single page as another integer and the page holds a URL under \<open>imageinfo[0].url\<close>, it
  returns that URL. This holds whatever strings \<open>int()\<close> accepts and however it reads
  them.
\<close>

theorem get_file_url_sentinel:
  assumes "api (file_url_params filename) = JObj kvs"
    and "map_of kvs ''query'' = Some (JObj q)"
    and "map_of q ''pages'' = Some (JObj pages)"
  shows "(length pages \<noteq> 1 \<longrightarrow> get_file_url int_str filename api = Inr JNull) \<and>
     (\<forall>pid page. pages = [(pid, page)] \<and> int_str pid = Some (-1) \<longrightarrow>
        get_file_url int_str filename api = Inr JNull) \<and>
     (\<forall>pid page n info more url.
        pages = [(pid, JObj page)] \<and> int_str pid = Some n \<and> n \<noteq> -1 \<and>
        map_of page ''imageinfo'' = Some (JArr (JObj info # more)) \<and>
        map_of info ''url'' = Some url \<longrightarrow>
        get_file_url int_str filename api = Inr url)"
proof (intro conjI allI impI)
  assume "length pages \<noteq> 1"
  with assms show "get_file_url int_str filename api = Inr JNull"
    by (rule get_file_url_not_single [where api = api and filename = filename])
next
  fix pid page
  assume h: "pages = [(pid, page)] \<and> int_str pid = Some (-1)"
  with assms(3) have "map_of q ''pages'' = Some (JObj [(pid, page)])" by simp
  from get_file_url_single [where api = api and filename = filename, OF assms(1) assms(2) this] h
  show "get_file_url int_str filename api = Inr JNull" by simp
next
  fix pid page n info more url
  assume h: "pages = [(pid, JObj page)] \<and> int_str pid = Some n \<and> n \<noteq> -1 \<and>
        map_of page ''imageinfo'' = Some (JArr (JObj info # more)) \<and>
        map_of info ''url'' = Some url"
  with assms(3) have "map_of q ''pages'' = Some (JObj [(pid, JObj page)])" by simp
  from get_file_url_single [where api = api and filename = filename, OF assms(1) assms(2) this] h
  show "get_file_url int_str filename api = Inr url" by (simp add: seq_index_def)
qed

theorem get_file_url_sentinel_witness:
  "get_file_url (reads_as ''1234'' 1234) ''Prayer.pdf''
     (\<lambda>p. pages_reply [(''1234'', sample_file_page), (''1235'', sample_file_page)]) = Inr JNull \<and>
   get_file_url (reads_as ''-1'' (-1)) ''Nothing.pdf''
     (\<lambda>p. pages_reply [(''-1'', sample_missing_page)]) = Inr JNull \<and>
   get_file_url (reads_as ''1234'' 1234) ''Prayer.pdf''
     (\<lambda>p. pages_reply [(''1234'', sample_file_page)]) =
     Inr (JStr ''https://www.4training.net/mediawiki/images/Prayer.pdf'')"
proof -
  have shape: "(\<lambda>p. pages_reply pages) (file_url_params f) =
      JObj [(''batchcomplete'', JStr ''''), (''query'', JObj [(''pages'', JObj pages)])]"
    "map_of [(''batchcomplete'', JStr ''''), (''query'', JObj [(''pages'', JObj pages)])] ''query'' =
      Some (JObj [(''pages'', JObj pages)])"
    "map_of [(''pages'', JObj pages)] ''pages'' = Some (JObj pages)" for pages and f :: string
    by (simp_all add: pages_reply_def)
  have minus_one: "reads_as ''-1'' (-1) ''-1'' = Some (-1)"
    by (simp add: reads_as_def)
  have id: "reads_as ''1234'' 1234 ''1234'' = Some 1234"
    by (simp add: reads_as_def)
  note two = get_file_url_sentinel
    [where api = "\<lambda>p. pages_reply [(''1234'', sample_file_page), (''1235'', sample_file_page)]"
       and filename = "''Prayer.pdf''" and int_str = "reads_as ''1234'' 1234", OF shape]
  note missing = get_file_url_sentinel
    [where api = "\<lambda>p. pages_reply [(''-1'', sample_missing_page)]"
       and filename = "''Nothing.pdf''" and int_str = "reads_as ''-1'' (-1)", OF shape]
  note found = get_file_url_sentinel
    [where api = "\<lambda>p. pages_reply [(''1234'', sample_file_page)]"
       and filename = "''Prayer.pdf''" and int_str = "reads_as ''1234'' 1234", OF shape]
  have "get_file_url (reads_as ''1234'' 1234) ''Prayer.pdf''
     (\<lambda>p. pages_reply [(''1234'', sample_file_page), (''1235'', sample_file_page)]) = Inr JNull"
    using two by simp
  moreover have "get_file_url (reads_as ''-1'' (-1)) ''Nothing.pdf''
      (\<lambda>p. pages_reply [(''-1'', sample_missing_page)]) = Inr JNull"
    using missing minus_one by blast
  moreover have "get_file_url (reads_as ''1234'' 1234) ''Prayer.pdf''
      (\<lambda>p. pages_reply [(''1234'', sample_file_page)]) =
     Inr (JStr ''https://www.4training.net/mediawiki/images/Prayer.pdf'')"
    using found id unfolding sample_file_page_def by force
  ultimately show ?thesis by simp
qed

section \<open>Templates of a page: results\<close>

lemma str_find_from_takeWhile:
  "str_find_from x s i =
     (if x \<in> set s then i + int (length (takeWhile (\<lambda>c. c \<noteq> x) s)) else -1)"
  by (induction s arbitrary: i) auto

lemma str_slice_to_find:
  "(if str_find s x = -1 then s else str_slice_to s (str_find s x)) = takeWhile (\<lambda>c. c \<noteq> x) s"
proof (cases "x \<in> set s")
  case True
  then have "str_find s x = int (length (takeWhile (\<lambda>c. c \<noteq> x) s))"
    by (simp add: str_find_def str_find_from_takeWhile)
  then show ?thesis
    by (simp add: str_slice_to_def takeWhile_eq_take [symmetric])
next
  case False
  then have whole: "takeWhile (\<lambda>c. c \<noteq> x) s = s"
    by auto
  show ?thesis
    unfolding whole using False by (simp add: str_find_def str_find_from_takeWhile)
qed

lemma templates_loop_titles:
  assumes "\<forall>l\<in>set lines. template_line l"
  shows "templates_loop lines acc =
     Inr (acc @ map (\<lambda>t. JStr (takeWhile (\<lambda>c. c \<noteq> CHR ''/'') t))
                  (List.map_filter line_title lines))"
  using assms
proof (induction lines arbitrary: acc)
  case Nil
  then show ?case by simp
next
  case (Cons line lines)
  then have rest: "\<forall>l\<in>set lines. template_line l" and line: "template_line line"
    by simp_all
  from line obtain kvs where kvs: "line = JObj kvs" by (cases line) simp_all
  show ?case
  proof (cases "map_of kvs ''title''")
    case None
    then show ?thesis
      by (simp add: kvs Cons.IH [OF rest])
  next
    case (Some v)
    with line kvs obtain t where t: "v = JStr t" by (cases v) simp_all
    have step: "templates_loop (line # lines) acc =
        templates_loop lines (acc @ [JStr (takeWhile (\<lambda>c. c \<noteq> CHR ''/'') t)])"
      using str_slice_to_find [of t "CHR ''/''"]
      by (simp add: kvs Some t Let_def split: if_splits)
    show ?thesis
      unfolding step by (simp add: kvs Some t Cons.IH [OF rest])
  qed
qed

text \<open>
  Claim C9. When the response lists a single page whose templates are entries with a
  string title (or with none), \<open>list_page_templates\<close> returns, in order, the titles of the
  entries that have one, each cut at its first slash, and whole when it has no slash.
\<close>

theorem list_page_templates_strips_language:
  assumes "api (page_templates_params page) = JObj kvs"
    and "map_of kvs ''query'' = Some (JObj q)"
    and "map_of q ''pages'' = Some (JObj [(pageid, JObj entry)])"
    and "map_of entry ''templates'' = Some (JArr lines)"
    and "\<forall>l\<in>set lines. template_line l"
  shows "list_page_templates page api =
     Inr (map (\<lambda>t. JStr (takeWhile (\<lambda>c. c \<noteq> CHR ''/'') t)) (List.map_filter line_title lines))"
  using assms(1-4)
  by (simp add: list_page_templates_def Let_def templates_loop_titles [OF assms(5)])

theorem list_page_templates_strips_language_witness:
  "list_page_templates ''Prayer'' (\<lambda>p. pages_reply [(''7'', sample_templates_page)]) =
     Inr [JStr ''Template:Italic'', JStr ''Template:CC0Notice'', JStr ''Template:Version'']"
proof -
  let ?lines = "[JObj [(''ns'', JInt 10), (''title'', JStr ''Template:Italic/en'')],
                  JObj [(''ns'', JInt 10)],
                  JObj [(''ns'', JInt 10), (''title'', JStr ''Template:CC0Notice'')],
                  JObj [(''ns'', JInt 10), (''title'', JStr ''Template:Version/de/draft'')]]"
  let ?entry = "[(''pageid'', JInt 7), (''title'', JStr ''Prayer''), (''templates'', JArr ?lines)]"
  let ?q = "[(''pages'', JObj [(''7'', JObj ?entry)])]"
  let ?kvs = "[(''batchcomplete'', JStr ''''), (''query'', JObj ?q)]"
  have h1: "(\<lambda>p. pages_reply [(''7'', sample_templates_page)]) (page_templates_params ''Prayer'') =
      JObj ?kvs"
    by (simp add: pages_reply_def sample_templates_page_def)
  have h2: "map_of ?kvs ''query'' = Some (JObj ?q)" by simp
  have h3: "map_of ?q ''pages'' = Some (JObj [(''7'', JObj ?entry)])" by simp
  have h4: "map_of ?entry ''templates'' = Some (JArr ?lines)" by simp
  have h5: "\<forall>l\<in>set ?lines. template_line l" by simp
  from list_page_templates_strips_language
    [where api = "\<lambda>p. pages_reply [(''7'', sample_templates_page)]" and page = "''Prayer''",
      OF h1 h2 h3 h4 h5]
  show ?thesis by simp
qed

section \<open>CC0 notice: results\<close>

text \<open>
  Claim C4, as stated. An expansion that contains the fuzzy-translation marker but not
  the name of the template is returned as it is, not replaced by the placeholder: the
  marker only makes \<open>get_cc0_notice\<close> log a warning.
\<close>

theorem get_cc0_notice_fuzzy_counterexample:
  "result (get_cc0_notice ''1.3'' ''de''
      (\<lambda>p. wikitext_reply ''<span class=mw-translate-fuzzy>Version 1.3</span>'')) =
     Inr (JStr ''<span class=mw-translate-fuzzy>Version 1.3</span>'') \<and>
   result (get_cc0_notice ''1.3'' ''de''
      (\<lambda>p. wikitext_reply ''<span class=mw-translate-fuzzy>Version 1.3</span>'')) \<noteq>
     Inr (JStr cc0_placeholder) \<and>
   str_contains ''mw-translate-fuzzy'' ''<span class=mw-translate-fuzzy>Version 1.3</span>''"
  by (simp add: get_cc0_notice_def expand_template_def wikitext_reply_def Let_def
      cc0_placeholder_def)

lemma expand_template_wikitext:
  assumes "api (expand_template_params raw) = JObj kvs"
    and "map_of kvs ''expandtemplates'' = Some (JObj et)"
    and "map_of et ''wikitext'' = Some w"
  shows "expand_template raw api = \<lparr>requests = 1, logged = [], result = Inr w\<rparr>"
  using assms by (simp add: expand_template_def Let_def)

text \<open>
  Claim C4, amended. When the template expands to a text, \<open>get_cc0_notice\<close> returns the
  fixed placeholder exactly when the text contains the template name
  \<open>Template:CC0Notice\<close>, and the text itself otherwise. The fuzzy-translation marker
  does not change the value returned: a warning is logged exactly when the text contains
  it.
\<close>

theorem get_cc0_notice_placeholder:
  assumes "api (expand_template_params (''{{CC0Notice/'' @ languagecode @ ''|'' @ version @ ''}}''))
      = JObj kvs"
    and "map_of kvs ''expandtemplates'' = Some (JObj et)"
    and "map_of et ''wikitext'' = Some (JStr w)"
  shows "result (get_cc0_notice version languagecode api) =
       Inr (JStr (if str_contains ''Template:CC0Notice'' w then cc0_placeholder else w)) \<and>
     (Warning CC0NotCorrectlyTranslated \<in> set (logged (get_cc0_notice version languagecode api)))
       = str_contains ''mw-translate-fuzzy'' w \<and>
     (Warning CC0NotTranslated \<in> set (logged (get_cc0_notice version languagecode api)))
       = str_contains ''Template:CC0Notice'' w"
  unfolding get_cc0_notice_def
    expand_template_wikitext [where api = api, OF assms]
  by (simp add: Let_def)

theorem get_cc0_notice_placeholder_witness:
  "result (get_cc0_notice ''1.3'' ''xx'' (\<lambda>p. wikitext_reply ''[[:Template:CC0Notice/xx]]'')) =
     Inr (JStr ''TODO translate https://www.4training.net/Template:CC0Notice'') \<and>
   result (get_cc0_notice ''1.3'' ''de'' (\<lambda>p. wikitext_reply ''Version 1.3 - CC0'')) =
     Inr (JStr ''Version 1.3 - CC0'')"
proof -
  have shape: "(\<lambda>p. wikitext_reply w) (expand_template_params raw) =
      JObj [(''expandtemplates'', JObj [(''wikitext'', JStr w)])]"
    "map_of [(''expandtemplates'', JObj [(''wikitext'', JStr w)])] ''expandtemplates'' =
      Some (JObj [(''wikitext'', JStr w)])"
    "map_of [(''wikitext'', JStr w)] ''wikitext'' = Some (JStr w)" for w and raw :: string
    by (simp_all add: wikitext_reply_def)
  note untranslated = get_cc0_notice_placeholder
    [where api = "\<lambda>p. wikitext_reply ''[[:Template:CC0Notice/xx]]''" and version = "''1.3''"
       and languagecode = "''xx''", OF shape]
  note translated = get_cc0_notice_placeholder
    [where api = "\<lambda>p. wikitext_reply ''Version 1.3 - CC0''" and version = "''1.3''"
       and languagecode = "''de''", OF shape]
  have c1: "str_contains ''Template:CC0Notice'' ''[[:Template:CC0Notice/xx]]''" by simp
  have c2: "\<not> str_contains ''Template:CC0Notice'' ''Version 1.3 - CC0''" by simp
  from untranslated translated show ?thesis
    unfolding cc0_placeholder_def by (simp only: c1 c2 if_True if_False simp_thms)
qed

section \<open>PDF name lookup: results\<close>

lemma get_pdf_name_translation_found:
  "get_pdf_name word ''Prayer'' ''de''
     (\<lambda>p. units_reply [translation_unit ''Prayer/1'' ''Prayer'' ''Gebet'',
                        translation_unit ''Prayer/2'' ''Prayer.pdf'' ''Gebet.pdf'']) =
     Inr (JStr ''Gebet.pdf'')"
  by code_simp

lemma get_pdf_name_source_found:
  "get_pdf_name ascii_word_char ''Prayer'' ''en''
     (\<lambda>p. pages_reply [(''7'', JObj [(''revisions'',
        JArr [JObj [(''*'', JStr ''Text {{PdfDownload|Prayer.pdf}} more'')]])])]) =
     Inr (JStr ''Prayer.pdf'')"
  by code_simp

lemma get_pdf_name_source_not_found:
  "get_pdf_name word ''Prayer'' ''en'' (\<lambda>p. JObj [(''batchcomplete'', JStr '''')]) = Inr JNull \<and>
   get_pdf_name word ''Prayer'' ''en''
     (\<lambda>p. pages_reply [(''7'', JObj [(''revisions'',
        JArr [JObj [(''*'', JStr ''Text without download'')]])])]) = Inr JNull"
  by code_simp

text \<open>
  Claim C3. The claim asks that \<open>get_pdf_name\<close> return \<open>None\<close> on every response. In the
  branch of a translated language the variable \<open>pdf\<close> is assigned only when a translation
  unit has a definition ending in \<open>.pdf\<close>: for a response whose units have no such
  definition, and for one with no units, the function raises \<open>UnboundLocalError\<close>; for a
  response without the key \<open>query\<close> it raises \<open>KeyError\<close>. In the branch of the base
  language a response with an empty set of pages raises \<open>StopIteration\<close>. None of
  this depends on the class \<open>\w\<close>.
\<close>

theorem get_pdf_name_raises:
  "get_pdf_name word ''Prayer'' ''de''
     (\<lambda>p. units_reply [translation_unit ''Prayer/1'' ''Prayer'' ''Gebet'',
                        translation_unit ''Prayer/2'' ''God hears us'' ''Gott erh'']) =
     Inl UnboundLocalError \<and>
   get_pdf_name word ''Prayer'' ''de'' (\<lambda>p. units_reply []) = Inl UnboundLocalError \<and>
   get_pdf_name word ''Prayer'' ''de''
     (\<lambda>p. JObj [(''error'', JObj [(''code'', JStr ''mcgroup-invalid'')])]) = Inl KeyError \<and>
   get_pdf_name word ''Prayer'' ''en'' (\<lambda>p. pages_reply []) = Inl StopIteration"
  by code_simp

end
